theory Spec2Isabelle
  imports Main
begin

section \<open>Time\<close>

text \<open>
  An instant (\<open>time.Time\<close>) is the number of nanoseconds on one clock, a duration
  (\<open>time.Duration\<close>) a signed number of nanoseconds. Both are integers: \<open>Time.Add\<close>
  does not wrap for any 64-bit duration, and a duration may be negative.
  Every \<open>time.Now()\<close> of the source is an explicit argument of the operation that reads
  the clock.
\<close>

type_synonym time = int
type_synonym duration = int

definition Add :: "time \<Rightarrow> duration \<Rightarrow> time" where
  "Add t d = t + d"

definition After :: "time \<Rightarrow> time \<Rightarrow> bool" where
  "After t u = (u < t)"

section \<open>The TTL cache (internal/pkg/cache/cache.go)\<close>

record 'v Entry =
  Value :: 'v
  ExpiresAt :: time
  IsFallback :: bool

text \<open>\<open>IsExpired\<close> reads the clock: \<open>now\<close> is that reading.\<close>

definition IsExpired :: "'v Entry \<Rightarrow> time \<Rightarrow> bool" where
  "IsExpired e now = After now (ExpiresAt e)"

text \<open>The mutex of the source guards each operation as a whole; operations are atomic here.\<close>

record 'v Cache =
  entries :: "string \<rightharpoonup> 'v Entry"
  ttl :: duration

definition New :: "duration \<Rightarrow> 'v Cache" where
  "New d = \<lparr>entries = Map.empty, ttl = d\<rparr>"

text \<open>
  \<open>Get\<close> returns the zero value of the type parameter on a miss; \<open>zero\<close> is that value.
\<close>

definition Get :: "'v \<Rightarrow> 'v Cache \<Rightarrow> time \<Rightarrow> string \<Rightarrow> 'v \<times> bool \<times> bool" where
  "Get zero c now key =
     (case entries c key of
        None \<Rightarrow> (zero, False, False)
      | Some entry \<Rightarrow> (Value entry, True, IsExpired entry now))"

definition Set :: "'v Cache \<Rightarrow> time \<Rightarrow> string \<Rightarrow> 'v \<Rightarrow> 'v Cache" where
  "Set c now key v =
     c\<lparr>entries := (entries c)(key \<mapsto>
         \<lparr>Value = v, ExpiresAt = Add now (ttl c), IsFallback = False\<rparr>)\<rparr>"

definition SetWithTTL :: "'v Cache \<Rightarrow> time \<Rightarrow> string \<Rightarrow> 'v \<Rightarrow> duration \<Rightarrow> 'v Cache" where
  "SetWithTTL c now key v d =
     c\<lparr>entries := (entries c)(key \<mapsto>
         \<lparr>Value = v, ExpiresAt = Add now d, IsFallback = False\<rparr>)\<rparr>"

definition Delete :: "'v Cache \<Rightarrow> string \<Rightarrow> 'v Cache" where
  "Delete c key = c\<lparr>entries := (entries c)(key := None)\<rparr>"

definition Clear :: "'v Cache \<Rightarrow> 'v Cache" where
  "Clear c = c\<lparr>entries := Map.empty\<rparr>"

text \<open>
  The loop of \<open>Cleanup\<close> ranges over the map in an order Go leaves open. The list \<open>ks\<close>
  is the order in which the keys are visited; each visit reads the entry and deletes it
  when \<open>now\<close>, read once before the loop, is after its expiry.
\<close>

fun Cleanup_range :: "time \<Rightarrow> string list \<Rightarrow> (string \<rightharpoonup> 'v Entry) \<Rightarrow> (string \<rightharpoonup> 'v Entry)" where
  "Cleanup_range now [] m = m"
| "Cleanup_range now (key # ks) m =
     (case m key of
        None \<Rightarrow> Cleanup_range now ks m
      | Some entry \<Rightarrow>
          if After now (ExpiresAt entry) then Cleanup_range now ks (m(key := None))
          else Cleanup_range now ks m)"

definition Cleanup :: "string list \<Rightarrow> 'v Cache \<Rightarrow> time \<Rightarrow> 'v Cache" where
  "Cleanup ks c now = c\<lparr>entries := Cleanup_range now ks (entries c)\<rparr>"

definition Size :: "'v Cache \<Rightarrow> int" where
  "Size c = int (card (dom (entries c)))"

definition SetTTL :: "'v Cache \<Rightarrow> duration \<Rightarrow> 'v Cache" where
  "SetTTL c d = c\<lparr>ttl := d\<rparr>"

definition GetTTL :: "'v Cache \<Rightarrow> duration" where
  "GetTTL c = ttl c"

text \<open>The entries a cleanup at \<open>now\<close> must keep: those whose expiry has not passed.\<close>

definition fresh_entries :: "(string \<rightharpoonup> 'v Entry) \<Rightarrow> time \<Rightarrow> (string \<rightharpoonup> 'v Entry)" where
  "fresh_entries m now key =
     (case m key of
        None \<Rightarrow> None
      | Some entry \<Rightarrow> if IsExpired entry now then None else Some entry)"

section \<open>Errors and decimal numbers\<close>

text \<open>
  A Go error is its message, and for an error made by \<open>fmt.Errorf\<close> with \<open>%w\<close> also the
  error it wraps. \<open>Error\<close> is the message.
\<close>

datatype error = ErrorString string | WrapError string error

fun Error :: "error \<Rightarrow> string" where
  "Error (ErrorString msg) = msg"
| "Error (WrapError msg err) = msg"

text \<open>\<open>fmt.Errorf(prefix + "%w", err)\<close>.\<close>

definition Errorf_w :: "string \<Rightarrow> error \<Rightarrow> error" where
  "Errorf_w prefix err = WrapError (prefix @ Error err) err"

text \<open>\<open>strconv.Itoa\<close>, also what \<open>%d\<close> prints.\<close>

fun digits :: "nat \<Rightarrow> string" where
  "digits n =
     (if n < 10 then [''0123456789'' ! n]
      else digits (n div 10) @ [''0123456789'' ! (n mod 10)])"

declare digits.simps [simp del]

definition Itoa :: "int \<Rightarrow> string" where
  "Itoa i = (if i < 0 then CHR ''-'' # digits (nat (- i)) else digits (nat i))"

section \<open>Prompts (model)\<close>

text \<open>
  A value of Go's \<open>any\<close> decoded from JSON. No operation here looks inside one;
  a number is kept as its literal text.
\<close>

datatype json =
  JNull | JBool bool | JNumber string | JString string
| JArray "json list" | JObject "(string \<times> json) list"

datatype PromptType = PromptTypeText | PromptTypeChat

record ChatMessage =
  Role :: string
  Content :: string

record TextPrompt =
  Name :: string
  Version :: int
  Config :: json
  Labels :: "string list"
  Tags :: "string list"
  Prompt :: string
  Type :: PromptType
  CommitMessage :: "string option"
  ResolutionGraph :: "(string \<times> json) list"

record ChatPrompt =
  Name :: string
  Version :: int
  Config :: json
  Labels :: "string list"
  Tags :: "string list"
  Prompt :: "ChatMessage list"
  Type :: PromptType
  CommitMessage :: "string option"
  ResolutionGraph :: "(string \<times> json) list"

text \<open>The union of two embedded pointers; a nil pointer is \<open>None\<close>.\<close>

record Prompt =
  TextPrompt :: "TextPrompt option"
  ChatPrompt :: "ChatPrompt option"

section \<open>The prompt resolver (langfuse.go)\<close>

text \<open>The anonymous struct that \<open>parsePromptResponse\<close> decodes first.\<close>

record rawPrompt =
  Type :: string
  Name :: string
  Version :: int
  Config :: json
  Labels :: "string list"
  Tags :: "string list"
  CommitMessage :: "string option"
  ResolutionGraph :: "(string \<times> json) list"
  Prompt :: string

record GetPromptOptions =
  Version :: "int option"
  Label :: "string option"
  FallbackPrompt :: "Prompt option"
  CacheTTL :: "duration option"
  FetchTimeout :: "duration option"
  ForceRefresh :: bool

text \<open>
  What the resolver calls and this repository does not define: the HTTP round trip of
  \<open>api.Client.DoGetRequest\<close> under the caller's context (its first argument is the
  timeout that \<open>fetchPrompt\<close> puts on that context, if any; the result is body, status
  code and error), the escaping functions of \<open>net/url\<close>, and \<open>json.Unmarshal\<close> at
  the three types it is used at. They are parameters of the model.
\<close>

record env =
  DoGetRequest :: "duration option \<Rightarrow> string \<Rightarrow> string \<times> int \<times> error option"
  PathEscape :: "string \<Rightarrow> string"
  QueryEscape :: "string \<Rightarrow> string"
  Unmarshal_rawPrompt :: "string \<Rightarrow> error + rawPrompt"
  Unmarshal_string :: "string \<Rightarrow> error + string"
  Unmarshal_messages :: "string \<Rightarrow> error + ChatMessage list"

text \<open>
  The fields of \<open>Langfuse\<close> that prompt resolution reads. The cached values are
  pointers to prompts: \<open>Prompt option\<close>, with \<open>None\<close> the nil pointer.
\<close>

record Langfuse =
  promptCache :: "Prompt option Cache"
  promptCacheTTL :: duration

definition defaultPromptCacheTTL :: duration where
  "defaultPromptCacheTTL = 5 * (60 * 1000000000)"

definition WithPromptCacheTTL :: "Langfuse \<Rightarrow> duration \<Rightarrow> Langfuse" where
  "WithPromptCacheTTL l d = l\<lparr>promptCacheTTL := d, promptCache := SetTTL (promptCache l) d\<rparr>"

definition buildPromptCacheKey :: "string \<Rightarrow> GetPromptOptions \<Rightarrow> string" where
  "buildPromptCacheKey name opts =
     (let key = ''prompt:'' @ name in
      case Version opts of
        Some version \<Rightarrow> key @ '':v'' @ Itoa version
      | None \<Rightarrow>
          (case Label opts of
             Some label \<Rightarrow> key @ '':l:'' @ label
           | None \<Rightarrow> key @ '':l:production''))"

definition parsePromptResponse :: "env \<Rightarrow> string \<Rightarrow> error + Prompt" where
  "parsePromptResponse env body =
     (case Unmarshal_rawPrompt env body of
        Inl err \<Rightarrow> Inl (Errorf_w ''failed to unmarshal prompt: '' err)
      | Inr raw \<Rightarrow>
          if rawPrompt.Type raw = ''text'' then
            (case Unmarshal_string env (rawPrompt.Prompt raw) of
               Inl err \<Rightarrow> Inl (Errorf_w ''failed to unmarshal text prompt: '' err)
             | Inr promptStr \<Rightarrow>
                 Inr \<lparr>TextPrompt = Some
                        \<lparr>TextPrompt.Name = rawPrompt.Name raw,
                         TextPrompt.Version = rawPrompt.Version raw,
                         TextPrompt.Config = rawPrompt.Config raw,
                         TextPrompt.Labels = rawPrompt.Labels raw,
                         TextPrompt.Tags = rawPrompt.Tags raw,
                         TextPrompt.Prompt = promptStr,
                         TextPrompt.Type = PromptTypeText,
                         TextPrompt.CommitMessage = rawPrompt.CommitMessage raw,
                         TextPrompt.ResolutionGraph = rawPrompt.ResolutionGraph raw\<rparr>,
                      ChatPrompt = None\<rparr>)
          else if rawPrompt.Type raw = ''chat'' then
            (case Unmarshal_messages env (rawPrompt.Prompt raw) of
               Inl err \<Rightarrow> Inl (Errorf_w ''failed to unmarshal chat prompt: '' err)
             | Inr messages \<Rightarrow>
                 Inr \<lparr>TextPrompt = None,
                      ChatPrompt = Some
                        \<lparr>ChatPrompt.Name = rawPrompt.Name raw,
                         ChatPrompt.Version = rawPrompt.Version raw,
                         ChatPrompt.Config = rawPrompt.Config raw,
                         ChatPrompt.Labels = rawPrompt.Labels raw,
                         ChatPrompt.Tags = rawPrompt.Tags raw,
                         ChatPrompt.Prompt = messages,
                         ChatPrompt.Type = PromptTypeChat,
                         ChatPrompt.CommitMessage = rawPrompt.CommitMessage raw,
                         ChatPrompt.ResolutionGraph = rawPrompt.ResolutionGraph raw\<rparr>\<rparr>)
          else Inl (ErrorString (''unknown prompt type: '' @ rawPrompt.Type raw)))"

text \<open>
  \<open>url.Values.Encode\<close> on the parameters \<open>fetchPrompt\<close> sets: at most one key, so the
  order of the keys plays no role.
\<close>

fun Encode :: "env \<Rightarrow> (string \<times> string) list \<Rightarrow> string" where
  "Encode env [] = []"
| "Encode env [(k, v)] = QueryEscape env k @ ''='' @ QueryEscape env v"
| "Encode env ((k, v) # params) =
     QueryEscape env k @ ''='' @ QueryEscape env v @ ''&'' @ Encode env params"

text \<open>The path and query that \<open>fetchPrompt\<close> requests.\<close>

definition fetchPrompt_path :: "env \<Rightarrow> string \<Rightarrow> GetPromptOptions \<Rightarrow> string" where
  "fetchPrompt_path env name opts =
     (let path = ''/api/public/v2/prompts/'' @ PathEscape env name;
          params =
            (case Version opts of
               Some version \<Rightarrow> [(''version'', Itoa version)]
             | None \<Rightarrow>
                 (case Label opts of
                    Some label \<Rightarrow> [(''label'', label)]
                  | None \<Rightarrow> []))
      in if length params > 0 then path @ ''?'' @ Encode env params else path)"

text \<open>
  \<open>fetchPrompt\<close> returns the pair of the source, a prompt pointer and an error, and the
  resolver after the call. \<open>now\<close> is the clock as \<open>SetWithTTL\<close> reads it.
\<close>

definition fetchPrompt ::
  "env \<Rightarrow> Langfuse \<Rightarrow> time \<Rightarrow> string \<Rightarrow> GetPromptOptions
     \<Rightarrow> (Prompt option \<times> error option) \<times> Langfuse" where
  "fetchPrompt env l now name opts =
     (case DoGetRequest env (FetchTimeout opts) (fetchPrompt_path env name opts) of
        (body, statusCode, Some err) \<Rightarrow>
          ((None, Some (Errorf_w ''failed to fetch prompt: '' err)), l)
      | (body, statusCode, None) \<Rightarrow>
          if statusCode \<ge> 400 then
            ((None, Some (ErrorString
               (''failed to fetch prompt: HTTP '' @ Itoa statusCode @ '': '' @ body))), l)
          else
            (case parsePromptResponse env body of
               Inl err \<Rightarrow>
                 ((None, Some (Errorf_w ''failed to parse prompt response: '' err)), l)
             | Inr prompt \<Rightarrow>
                 (let cacheTTL =
                        (case CacheTTL opts of Some d \<Rightarrow> d | None \<Rightarrow> promptCacheTTL l);
                      cacheKey = buildPromptCacheKey name opts
                  in ((Some prompt, None),
                      l\<lparr>promptCache :=
                          SetWithTTL (promptCache l) now cacheKey (Some prompt) cacheTTL\<rparr>))))"

text \<open>The tail of \<open>GetPrompt\<close>, from the comment "Fetch from API" on.\<close>

definition GetPrompt_fetch ::
  "env \<Rightarrow> Langfuse \<Rightarrow> time \<Rightarrow> string \<Rightarrow> GetPromptOptions
     \<Rightarrow> (Prompt option \<times> error option) \<times> Langfuse" where
  "GetPrompt_fetch env l now name opts =
     (case fetchPrompt env l now name opts of
        ((prompt, Some err), l') \<Rightarrow>
          (case FallbackPrompt opts of
             Some fallback \<Rightarrow> ((Some fallback, None), l')
           | None \<Rightarrow> ((None, Some err), l'))
      | ((prompt, None), l') \<Rightarrow> ((prompt, None), l'))"

text \<open>
  \<open>GetPrompt\<close>: \<open>now\<close> is the clock as the cache lookup reads it, \<open>now'\<close> as the write
  after a fetch reads it. A nil \<open>opts\<close> is \<open>None\<close>.
\<close>

definition GetPrompt ::
  "env \<Rightarrow> Langfuse \<Rightarrow> time \<Rightarrow> time \<Rightarrow> string \<Rightarrow> GetPromptOptions option
     \<Rightarrow> (Prompt option \<times> error option) \<times> Langfuse" where
  "GetPrompt env l now now' name opts_ptr =
     (let opts =
            (case opts_ptr of
               None \<Rightarrow> \<lparr>Version = None, Label = None, FallbackPrompt = None,
                         CacheTTL = None, FetchTimeout = None, ForceRefresh = False\<rparr>
             | Some opts \<Rightarrow> opts);
          cacheKey = buildPromptCacheKey name opts
      in if \<not> ForceRefresh opts then
           (case Get None (promptCache l) now cacheKey of
              (prompt, True, expired) \<Rightarrow>
                if \<not> expired then ((prompt, None), l)
                else
                  (case fetchPrompt env l now' name opts of
                     ((newPrompt, Some err), l') \<Rightarrow> ((prompt, None), l')
                   | ((newPrompt, None), l') \<Rightarrow> ((newPrompt, None), l'))
            | (prompt, False, expired) \<Rightarrow> GetPrompt_fetch env l now' name opts)
         else GetPrompt_fetch env l now' name opts)"

text \<open>
  A fetch fails when the round trip returns an error, when the status is 400 or more, or
  when the body does not parse.
\<close>

definition fetch_fails :: "env \<Rightarrow> string \<Rightarrow> GetPromptOptions \<Rightarrow> bool" where
  "fetch_fails env name opts =
     (case DoGetRequest env (FetchTimeout opts) (fetchPrompt_path env name opts) of
        (body, statusCode, err) \<Rightarrow>
          err \<noteq> None \<or> statusCode \<ge> 400 \<or> isl (parsePromptResponse env body))"

section \<open>Example collaborators and states\<close>

text \<open>
  A collaborator whose round trip always fails, one that serves version 2 of a text
  prompt, and one that answers with a type the parser does not know. The names used
  with them contain no character that the escaping functions change, so these leave
  their argument as it is.
\<close>

definition failing_env :: env where
  "failing_env =
     \<lparr>DoGetRequest = (\<lambda>timeout path. ([], 0, Some (ErrorString ''connection refused''))),
      PathEscape = (\<lambda>s. s),
      QueryEscape = (\<lambda>s. s),
      Unmarshal_rawPrompt = (\<lambda>body. Inl (ErrorString ''unexpected end of JSON input'')),
      Unmarshal_string = (\<lambda>body. Inl (ErrorString ''unexpected end of JSON input'')),
      Unmarshal_messages = (\<lambda>body. Inl (ErrorString ''unexpected end of JSON input''))\<rparr>"

definition text_prompt :: "int \<Rightarrow> string \<Rightarrow> Prompt" where
  "text_prompt version body =
     \<lparr>TextPrompt = Some
        \<lparr>TextPrompt.Name = ''movie-critic'', TextPrompt.Version = version,
         TextPrompt.Config = JNull, TextPrompt.Labels = [''production''],
         TextPrompt.Tags = [], TextPrompt.Prompt = body,
         TextPrompt.Type = PromptTypeText, TextPrompt.CommitMessage = None,
         TextPrompt.ResolutionGraph = []\<rparr>,
      ChatPrompt = None\<rparr>"

definition raw_reply :: "string \<Rightarrow> rawPrompt" where
  "raw_reply type =
     \<lparr>rawPrompt.Type = type, rawPrompt.Name = ''movie-critic'', rawPrompt.Version = 2,
      rawPrompt.Config = JNull, rawPrompt.Labels = [''production''], rawPrompt.Tags = [],
      rawPrompt.CommitMessage = None, rawPrompt.ResolutionGraph = [],
      rawPrompt.Prompt = ''raw''\<rparr>"

definition serving_env :: env where
  "serving_env =
     \<lparr>DoGetRequest = (\<lambda>timeout path. (''body'', 200, None)),
      PathEscape = (\<lambda>s. s),
      QueryEscape = (\<lambda>s. s),
      Unmarshal_rawPrompt = (\<lambda>body. Inr (raw_reply ''text'')),
      Unmarshal_string = (\<lambda>body. Inr ''Review {{movie}}''),
      Unmarshal_messages = (\<lambda>body. Inl (ErrorString ''not an array''))\<rparr>"

definition odd_type_env :: env where
  "odd_type_env = serving_env\<lparr>Unmarshal_rawPrompt := (\<lambda>body. Inr (raw_reply ''image''))\<rparr>"

definition no_opts :: GetPromptOptions where
  "no_opts = \<lparr>Version = None, Label = None, FallbackPrompt = None,
              CacheTTL = None, FetchTimeout = None, ForceRefresh = False\<rparr>"

text \<open>A resolver with an empty cache, as \<open>New\<close> of the package builds it.\<close>

definition empty_client :: Langfuse where
  "empty_client =
     \<lparr>promptCache = New defaultPromptCacheTTL, promptCacheTTL = defaultPromptCacheTTL\<rparr>"

text \<open>
  A resolver whose cache holds version 1 under the production key, written at instant 0
  with a TTL of 50: fresh up to instant 50, stale after it.
\<close>

definition seeded_entry :: "Prompt option Entry" where
  "seeded_entry =
     \<lparr>Value = Some (text_prompt 1 ''Old {{movie}}''), ExpiresAt = 50, IsFallback = False\<rparr>"

definition seeded_client :: Langfuse where
  "seeded_client =
     \<lparr>promptCache = SetWithTTL (New defaultPromptCacheTTL) 0
        ''prompt:movie-critic:l:production'' (Some (text_prompt 1 ''Old {{movie}}'')) 50,
      promptCacheTTL = defaultPromptCacheTTL\<rparr>"

text \<open>
  A cache with default TTL 50 that got \<open>key1\<close> at instant 0 and \<open>key3\<close> at
  instant 60.
\<close>

definition two_keys :: "nat Cache" where
  "two_keys = Set (Set (New 50) 0 ''key1'' 1) 60 ''key3'' 3"

section \<open>Properties of the cache\<close>

lemma fresh_entries_delete:
  "fresh_entries (m(k := None)) now key = (if key = k then None else fresh_entries m now key)"
  by (simp add: fresh_entries_def)

lemma Cleanup_range_visit:
  "Cleanup_range now ks m key = (if key \<in> set ks then fresh_entries m now key else m key)"
proof (induction ks arbitrary: m)
  case Nil
  show ?case by simp
next
  case (Cons k ks)
  show ?case
  proof (cases "m k")
    case None
    then have "Cleanup_range now (k # ks) m key = Cleanup_range now ks m key"
      by simp
    also have "\<dots> = (if key \<in> set ks then fresh_entries m now key else m key)"
      by (rule Cons.IH)
    also have "\<dots> = (if key \<in> set (k # ks) then fresh_entries m now key else m key)"
      using None by (simp add: fresh_entries_def)
    finally show ?thesis .
  next
    case (Some entry)
    show ?thesis
    proof (cases "After now (ExpiresAt entry)")
      case True
      with Some have "Cleanup_range now (k # ks) m key
          = Cleanup_range now ks (m(k := None)) key"
        by simp
      also have "\<dots> = (if key \<in> set ks then fresh_entries (m(k := None)) now key
                       else (m(k := None)) key)"
        by (rule Cons.IH)
      also have "\<dots> = (if key \<in> set (k # ks) then fresh_entries m now key else m key)"
        using Some True by (simp add: fresh_entries_delete) (simp add: fresh_entries_def IsExpired_def)
      finally show ?thesis .
    next
      case False
      with Some have "Cleanup_range now (k # ks) m key = Cleanup_range now ks m key"
        by simp
      also have "\<dots> = (if key \<in> set ks then fresh_entries m now key else m key)"
        by (rule Cons.IH)
      also have "\<dots> = (if key \<in> set (k # ks) then fresh_entries m now key else m key)"
        using Some False by (simp add: fresh_entries_def IsExpired_def)
      finally show ?thesis .
    qed
  qed
qed

lemma Cleanup_range_fresh:
  assumes "dom m \<subseteq> set ks"
  shows "Cleanup_range now ks m = fresh_entries m now"
proof
  fix key
  show "Cleanup_range now ks m key = fresh_entries m now key"
  proof (cases "key \<in> set ks")
    case True
    then show ?thesis by (simp add: Cleanup_range_visit)
  next
    case False
    with assms have "m key = None" by auto
    with False show ?thesis
      by (simp add: Cleanup_range_visit fresh_entries_def)
  qed
qed

lemma dom_fresh_entries:
  "dom (fresh_entries m now) = {key \<in> dom m. \<not> IsExpired (the (m key)) now}"
  by (auto simp: fresh_entries_def split: option.splits if_splits)

text \<open>
  C3, as stated: \<open>Set\<close> followed by \<open>Get\<close> at the same clock reading returns
  \<open>(v, true, false)\<close>. It fails for a cache whose default TTL is negative: the entry
  is written with an expiry before \<open>now\<close> and is read back as expired.
\<close>

theorem C3_roundtrip_counterexample:
  "Get (0::nat) (Set (New (- 1)) 0 ''k'' 7) 0 ''k'' = (7, True, True)"
  by (simp add: Get_def Set_def New_def IsExpired_def After_def Add_def)

text \<open>
  C3, amended: when the \<open>Get\<close> reads the clock no later than the default TTL after the
  \<open>Set\<close> did (in particular at the same instant, for a TTL that is not negative),
  \<open>Set\<close> followed by \<open>Get\<close> returns \<open>(v, true, false)\<close>.
\<close>

theorem C3_roundtrip:
  "now' \<le> Add now (ttl c) \<Longrightarrow> Get zero (Set c now k v) now' k = (v, True, False)"
  by (simp add: Get_def Set_def IsExpired_def After_def)

theorem C3_roundtrip_witness:
  "(0::int) \<le> Add 0 (ttl (New 60 :: nat Cache)) \<and>
   Get (0::nat) (Set (New 60) 0 ''k'' 7) 0 ''k'' = (7, True, False)"
  using C3_roundtrip [of 0 0 "New 60 :: nat Cache" "0::nat" "''k''" 7]
  by (simp add: New_def Add_def)

text \<open>
  C6: after \<open>SetWithTTL(k, v, ttl)\<close> at \<open>now\<close>, a \<open>Get(k)\<close> that reads the clock more than
  \<open>ttl\<close> later returns \<open>(v, true, true)\<close>: the entry is still there and is flagged
  stale. Reading does not change the cache, and neither \<open>SetTTL\<close> nor a write or
  delete of another key removes the entry.
\<close>

theorem C6_expired_retained:
  "d < now' - now \<Longrightarrow>
     Get zero (SetWithTTL c now k v d) now' k = (v, True, True) \<and>
     Get zero (SetTTL (SetWithTTL c now k v d) d') now' k = (v, True, True) \<and>
     (k' \<noteq> k \<longrightarrow>
        Get zero (Delete (SetWithTTL c now k v d) k') now' k = (v, True, True) \<and>
        Get zero (Set (SetWithTTL c now k v d) now'' k' v') now' k = (v, True, True))"
  by (simp add: Get_def SetWithTTL_def SetTTL_def Delete_def Set_def
      IsExpired_def After_def Add_def)

theorem C6_expired_retained_witness:
  "(50::int) < 60 - 0 \<and>
   Get (0::nat) (SetWithTTL (New 3600) 0 ''key1'' 7 50) 60 ''key1'' = (7, True, True) \<and>
   Get (0::nat) (Delete (SetWithTTL (New 3600) 0 ''key1'' 7 50) ''key2'') 60 ''key1''
     = (7, True, True)"
  using C6_expired_retained [of 50 60 0 "0::nat" "New 3600" "''key1''" 7 3600 "''key2''" 0 0]
  by simp

text \<open>
  C7: whatever the order \<open>ks\<close> in which the loop visits the keys of the map, after
  \<open>Cleanup\<close> the cache holds exactly the entries that were not expired at the call:
  \<open>Size\<close> is their number, and every such entry is still there, unchanged.
\<close>

theorem C7_cleanup_precision:
  "set ks = dom (entries c) \<Longrightarrow>
     entries (Cleanup ks c now) = fresh_entries (entries c) now \<and>
     Size (Cleanup ks c now)
       = int (card {key \<in> dom (entries c). \<not> IsExpired (the (entries c key)) now}) \<and>
     (\<forall>key entry. entries c key = Some entry \<and> \<not> IsExpired entry now
        \<longrightarrow> entries (Cleanup ks c now) key = Some entry)"
proof -
  assume ks: "set ks = dom (entries c)"
  then have eq: "entries (Cleanup ks c now) = fresh_entries (entries c) now"
    by (simp add: Cleanup_def Cleanup_range_fresh)
  have sz: "Size (Cleanup ks c now)
       = int (card {key \<in> dom (entries c). \<not> IsExpired (the (entries c key)) now})"
    by (simp add: Size_def eq dom_fresh_entries)
  have keep: "\<forall>key entry. entries c key = Some entry \<and> \<not> IsExpired entry now
        \<longrightarrow> entries (Cleanup ks c now) key = Some entry"
    by (simp add: eq fresh_entries_def)
  from eq sz keep show ?thesis by blast
qed

theorem C7_cleanup_precision_witness:
  "set [''key1'', ''key3''] = dom (entries two_keys) \<and>
   Size (Cleanup [''key1'', ''key3''] two_keys 60) = 1 \<and>
   Get 0 (Cleanup [''key1'', ''key3''] two_keys 60) 60 ''key3'' = (3, True, False) \<and>
   Get 0 (Cleanup [''key1'', ''key3''] two_keys 60) 60 ''key1'' = (0, False, False)"
proof -
  have h: "set [''key1'', ''key3''] = dom (entries two_keys)"
    by (auto simp: two_keys_def Set_def New_def)
  have e: "entries two_keys =
      [''key1'' \<mapsto> \<lparr>Value = 1, ExpiresAt = 50, IsFallback = False\<rparr>,
       ''key3'' \<mapsto> \<lparr>Value = 3, ExpiresAt = 110, IsFallback = False\<rparr>]"
    by (simp add: two_keys_def Set_def New_def Add_def)
  have s: "{key \<in> dom (entries two_keys). \<not> IsExpired (the (entries two_keys key)) 60}
      = {''key3''}"
    by (auto simp: e IsExpired_def After_def split: if_splits)
  from C7_cleanup_precision [OF h, of 60] s e show ?thesis
    using h by (simp add: Get_def fresh_entries_def IsExpired_def After_def)
qed

section \<open>Properties of the prompt resolver\<close>

subsection \<open>What a fetch does\<close>

lemma fetchPrompt_fails:
  "fetch_fails env name opts \<Longrightarrow>
     snd (fetchPrompt env l now name opts) = l \<and>
     fst (fst (fetchPrompt env l now name opts)) = None \<and>
     snd (fst (fetchPrompt env l now name opts)) \<noteq> None"
  by (auto simp: fetch_fails_def fetchPrompt_def isl_def
      split: prod.splits option.splits sum.splits)

lemma fetchPrompt_fails_cases:
  assumes "fetch_fails env name opts"
  obtains err where "fetchPrompt env l now name opts = ((None, Some err), l)"
  using fetchPrompt_fails [OF assms, of l now]
  by (cases "fetchPrompt env l now name opts") auto

lemma fetchPrompt_succeeds:
  assumes "DoGetRequest env (FetchTimeout opts) (fetchPrompt_path env name opts)
             = (body, statusCode, None)"
    and "statusCode < 400"
    and "parsePromptResponse env body = Inr prompt"
  shows "fetchPrompt env l now name opts =
           ((Some prompt, None),
            l\<lparr>promptCache := SetWithTTL (promptCache l) now (buildPromptCacheKey name opts)
                 (Some prompt)
                 (case CacheTTL opts of Some d \<Rightarrow> d | None \<Rightarrow> promptCacheTTL l)\<rparr>)"
  using assms by (simp add: fetchPrompt_def)

lemma fetchPrompt_cache_irrelevant:
  "fst (fetchPrompt env (l\<lparr>promptCache := c\<rparr>) now name opts)
     = fst (fetchPrompt env l now name opts)"
  by (simp add: fetchPrompt_def split: prod.splits option.splits sum.splits)

lemma GetPrompt_fetch_cache_irrelevant:
  "fst (GetPrompt_fetch env (l\<lparr>promptCache := c\<rparr>) now name opts)
     = fst (GetPrompt_fetch env l now name opts)"
proof -
  obtain r l1 where a: "fetchPrompt env l now name opts = (r, l1)"
    by (cases "fetchPrompt env l now name opts")
  obtain r' l2 where b: "fetchPrompt env (l\<lparr>promptCache := c\<rparr>) now name opts = (r', l2)"
    by (cases "fetchPrompt env (l\<lparr>promptCache := c\<rparr>) now name opts")
  have "fst (fetchPrompt env (l\<lparr>promptCache := c\<rparr>) now name opts)
          = fst (fetchPrompt env l now name opts)"
    by (rule fetchPrompt_cache_irrelevant)
  with a b have "r' = r" by simp
  with a b show ?thesis
    by (simp add: GetPrompt_fetch_def split: prod.splits option.splits)
qed

lemma buildPromptCacheKey_fallback:
  "buildPromptCacheKey name (opts\<lparr>FallbackPrompt := f\<rparr>) = buildPromptCacheKey name opts"
  by (simp add: buildPromptCacheKey_def Let_def split: option.splits)

lemma fetchPrompt_path_fallback:
  "fetchPrompt_path env name (opts\<lparr>FallbackPrompt := f\<rparr>) = fetchPrompt_path env name opts"
  by (simp add: fetchPrompt_path_def Let_def split: option.splits)

lemma fetchPrompt_fallback:
  "fetchPrompt env l now name (opts\<lparr>FallbackPrompt := f\<rparr>) = fetchPrompt env l now name opts"
  by (simp add: fetchPrompt_def buildPromptCacheKey_fallback fetchPrompt_path_fallback Let_def
      split: prod.splits option.splits sum.splits)

text \<open>The examples, evaluated.\<close>

lemma failing_env_fails: "fetch_fails failing_env name opts"
  by (simp add: fetch_fails_def failing_env_def)

lemma odd_type_env_parse:
  "parsePromptResponse odd_type_env body = Inl (ErrorString ''unknown prompt type: image'')"
  by (simp add: parsePromptResponse_def odd_type_env_def serving_env_def raw_reply_def)

lemma serving_env_parse:
  "parsePromptResponse serving_env body = Inr (text_prompt 2 ''Review {{movie}}'')"
  by (simp add: parsePromptResponse_def serving_env_def raw_reply_def text_prompt_def)

lemma production_key: "buildPromptCacheKey ''movie-critic'' no_opts = ''prompt:movie-critic:l:production''"
  by (simp add: buildPromptCacheKey_def no_opts_def)

lemma seeded_client_entry:
  "entries (promptCache seeded_client) ''prompt:movie-critic:l:production'' = Some seeded_entry"
  by (simp add: seeded_client_def seeded_entry_def SetWithTTL_def New_def Add_def)

lemma empty_client_entry: "entries (promptCache empty_client) key = None"
  by (simp add: empty_client_def New_def)

subsection \<open>Claims about the resolver\<close>

text \<open>
  C1 (stale-while-error): when the cache holds an expired entry under the key of the
  request, \<open>ForceRefresh\<close> is false and the fetch fails, \<open>GetPrompt\<close> returns the
  expired cached value with a nil error, and leaves the resolver as it was.
\<close>

theorem C1_stale_while_error:
  assumes "entries (promptCache l) (buildPromptCacheKey name opts) = Some entry"
    and "IsExpired entry now"
    and "\<not> ForceRefresh opts"
    and "fetch_fails env name opts"
  shows "GetPrompt env l now now' name (Some opts) = ((Value entry, None), l)"
proof -
  from assms(4) obtain err where "fetchPrompt env l now' name opts = ((None, Some err), l)"
    by (rule fetchPrompt_fails_cases)
  with assms(1-3) show ?thesis
    by (simp add: GetPrompt_def Get_def)
qed

theorem C1_stale_while_error_witness:
  "entries (promptCache seeded_client) (buildPromptCacheKey ''movie-critic'' no_opts)
     = Some seeded_entry \<and>
   IsExpired seeded_entry 60 \<and>
   \<not> ForceRefresh no_opts \<and>
   fetch_fails failing_env ''movie-critic'' no_opts \<and>
   GetPrompt failing_env seeded_client 60 61 ''movie-critic'' (Some no_opts)
     = ((Some (text_prompt 1 ''Old {{movie}}''), None), seeded_client)"
proof -
  have h1: "entries (promptCache seeded_client) (buildPromptCacheKey ''movie-critic'' no_opts)
     = Some seeded_entry"
    by (simp add: production_key seeded_client_entry)
  have h2: "IsExpired seeded_entry 60"
    by (simp add: IsExpired_def After_def seeded_entry_def)
  have h3: "\<not> ForceRefresh no_opts"
    by (simp add: no_opts_def)
  have h4: "fetch_fails failing_env ''movie-critic'' no_opts"
    by (rule failing_env_fails)
  from C1_stale_while_error [OF h1 h2 h3 h4, of 61] h1 h2 h3 h4 show ?thesis
    by (simp add: seeded_entry_def)
qed

text \<open>
  C2 (fallback-on-miss): when the cache has no entry under the key of the request and
  the fetch fails, \<open>GetPrompt\<close> returns the fallback prompt with a nil error if the
  options carry one, and otherwise a nil prompt with the error of the fetch.
\<close>

theorem C2_fallback_on_miss:
  assumes "entries (promptCache l) (buildPromptCacheKey name opts) = None"
    and "fetch_fails env name opts"
  shows "(FallbackPrompt opts = Some F \<longrightarrow>
            GetPrompt env l now now' name (Some opts) = ((Some F, None), l)) \<and>
         (FallbackPrompt opts = None \<longrightarrow>
            GetPrompt env l now now' name (Some opts)
              = ((None, snd (fst (fetchPrompt env l now' name opts))), l) \<and>
            snd (fst (fetchPrompt env l now' name opts)) \<noteq> None)"
proof -
  from assms(2) obtain err where "fetchPrompt env l now' name opts = ((None, Some err), l)"
    by (rule fetchPrompt_fails_cases)
  with assms(1) show ?thesis
    by (simp add: GetPrompt_def Get_def GetPrompt_fetch_def)
qed

theorem C2_fallback_on_miss_witness:
  "entries (promptCache empty_client)
      (buildPromptCacheKey ''movie-critic''
         (no_opts\<lparr>FallbackPrompt := Some (text_prompt 0 ''Please review {{movie}}'')\<rparr>)) = None \<and>
   fetch_fails failing_env ''movie-critic''
      (no_opts\<lparr>FallbackPrompt := Some (text_prompt 0 ''Please review {{movie}}'')\<rparr>) \<and>
   GetPrompt failing_env empty_client 0 1 ''movie-critic''
      (Some (no_opts\<lparr>FallbackPrompt := Some (text_prompt 0 ''Please review {{movie}}'')\<rparr>))
     = ((Some (text_prompt 0 ''Please review {{movie}}''), None), empty_client) \<and>
   entries (promptCache empty_client) (buildPromptCacheKey ''movie-critic'' no_opts) = None \<and>
   fetch_fails failing_env ''movie-critic'' no_opts \<and>
   GetPrompt failing_env empty_client 0 1 ''movie-critic'' (Some no_opts)
     = ((None, Some (WrapError ''failed to fetch prompt: connection refused''
                       (ErrorString ''connection refused''))), empty_client)"
proof -
  let ?F = "text_prompt 0 ''Please review {{movie}}''"
  let ?o = "no_opts\<lparr>FallbackPrompt := Some ?F\<rparr>"
  have h1: "entries (promptCache empty_client) (buildPromptCacheKey ''movie-critic'' ?o) = None"
    by (rule empty_client_entry)
  have h2: "fetch_fails failing_env ''movie-critic'' ?o"
    by (rule failing_env_fails)
  have h3: "entries (promptCache empty_client) (buildPromptCacheKey ''movie-critic'' no_opts)
      = None"
    by (rule empty_client_entry)
  have h4: "fetch_fails failing_env ''movie-critic'' no_opts"
    by (rule failing_env_fails)
  have e: "snd (fst (fetchPrompt failing_env empty_client 1 ''movie-critic'' no_opts))
      = Some (WrapError ''failed to fetch prompt: connection refused''
                (ErrorString ''connection refused''))"
    by (simp add: fetchPrompt_def failing_env_def Errorf_w_def)
  from C2_fallback_on_miss [OF h1 h2, of ?F 0 1] C2_fallback_on_miss [OF h3 h4, of ?F 0 1]
    h1 h2 h3 h4 e
  show ?thesis
    by (simp add: no_opts_def)
qed

text \<open>
  C4: the cache key is \<open>"prompt:" + name + ":v" + version\<close> when a version is set
  (whatever the label), else \<open>"prompt:" + name + ":l:" + label\<close> when a label is set,
  else \<open>"prompt:" + name + ":l:production"\<close>. Setting neither gives the key of the
  label \<open>production\<close>; the other options do not enter the key; for one name the key of
  a version is never the key of a label.
\<close>

theorem C4_cache_key:
  "buildPromptCacheKey name opts =
     (case Version opts of
        Some version \<Rightarrow> ''prompt:'' @ name @ '':v'' @ Itoa version
      | None \<Rightarrow>
          (case Label opts of
             Some label \<Rightarrow> ''prompt:'' @ name @ '':l:'' @ label
           | None \<Rightarrow> ''prompt:'' @ name @ '':l:production'')) \<and>
   buildPromptCacheKey name (opts\<lparr>Version := None, Label := None\<rparr>)
     = buildPromptCacheKey name (opts\<lparr>Version := None, Label := Some ''production''\<rparr>) \<and>
   buildPromptCacheKey name
       (opts\<lparr>FallbackPrompt := f, CacheTTL := d, FetchTimeout := t, ForceRefresh := b\<rparr>)
     = buildPromptCacheKey name opts \<and>
   buildPromptCacheKey name (opts\<lparr>Version := Some v\<rparr>)
     \<noteq> buildPromptCacheKey name (opts\<lparr>Version := None, Label := Some label\<rparr>)"
  by (simp add: buildPromptCacheKey_def split: option.splits)

theorem C4_cache_key_witness:
  "buildPromptCacheKey ''p'' (no_opts\<lparr>Version := Some 2, Label := Some ''staging''\<rparr>)
     = ''prompt:p:v2'' \<and>
   buildPromptCacheKey ''p'' (no_opts\<lparr>Label := Some ''staging''\<rparr>) = ''prompt:p:l:staging'' \<and>
   buildPromptCacheKey ''p'' no_opts = ''prompt:p:l:production''"
  using C4_cache_key [of "''p''" "no_opts\<lparr>Version := Some 2, Label := Some ''staging''\<rparr>"]
    C4_cache_key [of "''p''" "no_opts\<lparr>Label := Some ''staging''\<rparr>"]
    C4_cache_key [of "''p''" no_opts]
  by (simp add: no_opts_def Itoa_def digits.simps)

text \<open>
  C5 (force refresh): with \<open>ForceRefresh\<close> set, what \<open>GetPrompt\<close> returns does not
  depend on the cache; when the fetch succeeds with a prompt, it returns that prompt with
  a nil error, and afterwards the cache holds that prompt under the key of the request,
  whatever it held before.
\<close>

theorem C5_force_refresh:
  assumes "ForceRefresh opts"
  shows "fst (GetPrompt env (l\<lparr>promptCache := c\<rparr>) now now' name (Some opts))
           = fst (GetPrompt env l now now' name (Some opts)) \<and>
         (DoGetRequest env (FetchTimeout opts) (fetchPrompt_path env name opts)
             = (body, statusCode, None) \<and>
          statusCode < 400 \<and> parsePromptResponse env body = Inr fetched \<longrightarrow>
            fst (GetPrompt env l now now' name (Some opts)) = (Some fetched, None) \<and>
            entries (promptCache (snd (GetPrompt env l now now' name (Some opts))))
                (buildPromptCacheKey name opts)
              = Some \<lparr>Value = Some fetched,
                      ExpiresAt = Add now'
                        (case CacheTTL opts of Some d \<Rightarrow> d | None \<Rightarrow> promptCacheTTL l),
                      IsFallback = False\<rparr>)"
proof -
  have a: "fst (GetPrompt env (l\<lparr>promptCache := c\<rparr>) now now' name (Some opts))
           = fst (GetPrompt env l now now' name (Some opts))"
    using assms by (simp add: GetPrompt_def GetPrompt_fetch_cache_irrelevant)
  have b: "fst (GetPrompt env l now now' name (Some opts)) = (Some fetched, None) \<and>
            entries (promptCache (snd (GetPrompt env l now now' name (Some opts))))
                (buildPromptCacheKey name opts)
              = Some \<lparr>Value = Some fetched,
                      ExpiresAt = Add now'
                        (case CacheTTL opts of Some d \<Rightarrow> d | None \<Rightarrow> promptCacheTTL l),
                      IsFallback = False\<rparr>"
    if "DoGetRequest env (FetchTimeout opts) (fetchPrompt_path env name opts)
             = (body, statusCode, None)"
      and "statusCode < 400" and "parsePromptResponse env body = Inr fetched"
    using assms fetchPrompt_succeeds [OF that, of l now']
    by (simp add: GetPrompt_def GetPrompt_fetch_def SetWithTTL_def)
  from a b show ?thesis by blast
qed

theorem C5_force_refresh_witness:
  "ForceRefresh (no_opts\<lparr>ForceRefresh := True\<rparr>) \<and>
   Get None (promptCache seeded_client) 10 ''prompt:movie-critic:l:production''
     = (Some (text_prompt 1 ''Old {{movie}}''), True, False) \<and>
   fst (GetPrompt serving_env seeded_client 10 11 ''movie-critic''
          (Some (no_opts\<lparr>ForceRefresh := True\<rparr>)))
     = (Some (text_prompt 2 ''Review {{movie}}''), None) \<and>
   Get None (promptCache (snd (GetPrompt serving_env seeded_client 10 11 ''movie-critic''
          (Some (no_opts\<lparr>ForceRefresh := True\<rparr>))))) 12 ''prompt:movie-critic:l:production''
     = (Some (text_prompt 2 ''Review {{movie}}''), True, False)"
proof -
  let ?o = "no_opts\<lparr>ForceRefresh := True\<rparr>"
  have h: "ForceRefresh ?o" by simp
  have k: "buildPromptCacheKey ''movie-critic'' ?o = ''prompt:movie-critic:l:production''"
    by (simp add: buildPromptCacheKey_def no_opts_def)
  have g: "DoGetRequest serving_env (FetchTimeout ?o)
             (fetchPrompt_path serving_env ''movie-critic'' ?o) = (''body'', 200, None)"
    by (simp add: serving_env_def)
  have v1: "Get None (promptCache seeded_client) 10 ''prompt:movie-critic:l:production''
     = (Some (text_prompt 1 ''Old {{movie}}''), True, False)"
    by (simp add: Get_def seeded_client_entry seeded_entry_def IsExpired_def After_def)
  from C5_force_refresh [OF h, where env = serving_env and l = seeded_client
      and c = "promptCache seeded_client" and now = 10 and now' = 11
      and name = "''movie-critic''" and body = "''body''" and statusCode = 200
      and fetched = "text_prompt 2 ''Review {{movie}}''"]
    g serving_env_parse [of "''body''"] k v1
  show ?thesis
    by (simp add: Get_def IsExpired_def After_def Add_def no_opts_def seeded_client_def
        defaultPromptCacheTTL_def)
qed

text \<open>
  C8, as stated: the error that \<open>GetPrompt\<close> returns tells which name, version or label
  was being resolved. It does not: against a collaborator that refuses every connection,
  version 2 of \<open>movie-critic\<close> and the \<open>staging\<close> label of \<open>greeter\<close> get
  the same error.
\<close>

theorem C8_error_context_counterexample:
  "fst (GetPrompt failing_env empty_client 0 0 ''movie-critic''
          (Some (no_opts\<lparr>Version := Some 2\<rparr>)))
     = (None, Some (WrapError ''failed to fetch prompt: connection refused''
                      (ErrorString ''connection refused''))) \<and>
   fst (GetPrompt failing_env empty_client 0 0 ''greeter''
          (Some (no_opts\<lparr>Label := Some ''staging''\<rparr>)))
     = (None, Some (WrapError ''failed to fetch prompt: connection refused''
                      (ErrorString ''connection refused'')))"
  by (simp add: GetPrompt_def GetPrompt_fetch_def fetchPrompt_def failing_env_def no_opts_def
      Get_def empty_client_def New_def Errorf_w_def)

text \<open>
  C8, amended: when a fetch failure is not recovered by the stale or fallback policy
  (forced refresh or cache miss, and no fallback prompt), \<open>GetPrompt\<close> returns a nil
  prompt and the failure under a prefix that names the stage only:
  \<open>"failed to fetch prompt: "\<close> wrapping the error of the round trip,
  \<open>"failed to fetch prompt: HTTP <status>: <body>"\<close> for a status of 400 or more,
  \<open>"failed to parse prompt response: "\<close> wrapping the error of the parser.
\<close>

theorem C8_error_wrapping:
  assumes "ForceRefresh opts \<or> entries (promptCache l) (buildPromptCacheKey name opts) = None"
    and "FallbackPrompt opts = None"
    and "DoGetRequest env (FetchTimeout opts) (fetchPrompt_path env name opts)
           = (body, statusCode, err)"
  shows "(err = Some e \<longrightarrow>
            GetPrompt env l now now' name (Some opts)
              = ((None, Some (WrapError (''failed to fetch prompt: '' @ Error e) e)), l)) \<and>
         (err = None \<and> statusCode \<ge> 400 \<longrightarrow>
            GetPrompt env l now now' name (Some opts)
              = ((None, Some (ErrorString
                   (''failed to fetch prompt: HTTP '' @ Itoa statusCode @ '': '' @ body))), l)) \<and>
         (err = None \<and> statusCode < 400 \<and> parsePromptResponse env body = Inl pe \<longrightarrow>
            GetPrompt env l now now' name (Some opts)
              = ((None,
                  Some (WrapError (''failed to parse prompt response: '' @ Error pe) pe)), l))"
  using assms
  by (auto simp: GetPrompt_def GetPrompt_fetch_def fetchPrompt_def Get_def Errorf_w_def)

theorem C8_error_wrapping_witness:
  "(ForceRefresh no_opts \<or>
      entries (promptCache empty_client) (buildPromptCacheKey ''movie-critic'' no_opts) = None) \<and>
   FallbackPrompt no_opts = None \<and>
   DoGetRequest odd_type_env (FetchTimeout no_opts)
       (fetchPrompt_path odd_type_env ''movie-critic'' no_opts) = (''body'', 200, None) \<and>
   GetPrompt odd_type_env empty_client 0 1 ''movie-critic'' (Some no_opts)
     = ((None, Some (WrapError ''failed to parse prompt response: unknown prompt type: image''
                       (ErrorString ''unknown prompt type: image''))), empty_client)"
proof -
  have h1: "ForceRefresh no_opts \<or>
      entries (promptCache empty_client) (buildPromptCacheKey ''movie-critic'' no_opts) = None"
    by (simp add: empty_client_entry)
  have h2: "FallbackPrompt no_opts = None"
    by (simp add: no_opts_def)
  have h3: "DoGetRequest odd_type_env (FetchTimeout no_opts)
       (fetchPrompt_path odd_type_env ''movie-critic'' no_opts) = (''body'', 200, None)"
    by (simp add: odd_type_env_def serving_env_def)
  from C8_error_wrapping [OF h1 h2 h3,
      of "ErrorString ''unused''" 0 1 "ErrorString ''unknown prompt type: image''"]
    odd_type_env_parse [of "''body''"] h1 h2 h3
  show ?thesis by simp
qed

text \<open>
  C9: a fetch that fails, by an error of the round trip, by a status of 400 or more or
  by a body that does not parse, returns an error and leaves the resolver, and so its
  cache, exactly as it was; the same holds for the \<open>GetPrompt\<close> call around it. A
  body whose type is neither \<open>text\<close> nor \<open>chat\<close> does not parse.
\<close>

theorem C9_failed_fetch_keeps_cache:
  assumes "DoGetRequest env (FetchTimeout opts) (fetchPrompt_path env name opts)
             = (body, statusCode, err)"
  shows "(err \<noteq> None \<or> statusCode \<ge> 400 \<or> isl (parsePromptResponse env body) \<longrightarrow>
            snd (fetchPrompt env l now name opts) = l \<and>
            fst (fst (fetchPrompt env l now name opts)) = None \<and>
            snd (fst (fetchPrompt env l now name opts)) \<noteq> None \<and>
            snd (GetPrompt env l now'' now name (Some opts)) = l) \<and>
         (Unmarshal_rawPrompt env body = Inr raw \<and>
          rawPrompt.Type raw \<noteq> ''text'' \<and> rawPrompt.Type raw \<noteq> ''chat'' \<longrightarrow>
            isl (parsePromptResponse env body))"
proof -
  have a: "snd (fetchPrompt env l now name opts) = l \<and>
            fst (fst (fetchPrompt env l now name opts)) = None \<and>
            snd (fst (fetchPrompt env l now name opts)) \<noteq> None \<and>
            snd (GetPrompt env l now'' now name (Some opts)) = l"
    if "err \<noteq> None \<or> statusCode \<ge> 400 \<or> isl (parsePromptResponse env body)"
  proof -
    from that assms have f: "fetch_fails env name opts"
      by (simp add: fetch_fails_def)
    then obtain e where e: "fetchPrompt env l now name opts = ((None, Some e), l)"
      by (rule fetchPrompt_fails_cases)
    then show ?thesis
      by (simp add: GetPrompt_def GetPrompt_fetch_def Get_def
          split: option.splits prod.splits)
  qed
  have b: "isl (parsePromptResponse env body)"
    if "Unmarshal_rawPrompt env body = Inr raw"
      and "rawPrompt.Type raw \<noteq> ''text''" and "rawPrompt.Type raw \<noteq> ''chat''"
    using that by (simp add: parsePromptResponse_def)
  from a b show ?thesis by blast
qed

theorem C9_failed_fetch_keeps_cache_witness:
  "DoGetRequest odd_type_env (FetchTimeout no_opts)
       (fetchPrompt_path odd_type_env ''movie-critic'' no_opts) = (''body'', 200, None) \<and>
   Unmarshal_rawPrompt odd_type_env ''body'' = Inr (raw_reply ''image'') \<and>
   rawPrompt.Type (raw_reply ''image'') \<noteq> ''text'' \<and>
   rawPrompt.Type (raw_reply ''image'') \<noteq> ''chat'' \<and>
   isl (parsePromptResponse odd_type_env ''body'') \<and>
   snd (fetchPrompt odd_type_env seeded_client 61 ''movie-critic'' no_opts) = seeded_client \<and>
   snd (GetPrompt odd_type_env seeded_client 60 61 ''movie-critic'' (Some no_opts))
     = seeded_client"
proof -
  have h: "DoGetRequest odd_type_env (FetchTimeout no_opts)
       (fetchPrompt_path odd_type_env ''movie-critic'' no_opts) = (''body'', 200, None)"
    by (simp add: odd_type_env_def serving_env_def)
  have r: "Unmarshal_rawPrompt odd_type_env ''body'' = Inr (raw_reply ''image'')"
    by (simp add: odd_type_env_def)
  have t: "rawPrompt.Type (raw_reply ''image'') \<noteq> ''text'' \<and>
      rawPrompt.Type (raw_reply ''image'') \<noteq> ''chat''"
    by (simp add: raw_reply_def)
  from C9_failed_fetch_keeps_cache [OF h, where l = seeded_client and now = 61
      and now'' = 60 and raw = "raw_reply ''image''"] h r t
  show ?thesis by simp
qed

text \<open>
  C10: on a cache hit without \<open>ForceRefresh\<close> the fallback prompt of the options has no
  influence on what \<open>GetPrompt\<close> returns or does; in particular, when the entry is
  expired and the fetch fails, the stale cached value is returned, not the fallback.
\<close>

theorem C10_stale_beats_fallback:
  assumes "entries (promptCache l) (buildPromptCacheKey name opts) = Some entry"
    and "\<not> ForceRefresh opts"
  shows "GetPrompt env l now now' name (Some (opts\<lparr>FallbackPrompt := f\<rparr>))
           = GetPrompt env l now now' name (Some opts) \<and>
         (IsExpired entry now \<and> fetch_fails env name opts \<longrightarrow>
            fst (GetPrompt env l now now' name (Some (opts\<lparr>FallbackPrompt := Some F\<rparr>)))
              = (Value entry, None))"
proof -
  have a: "GetPrompt env l now now' name (Some (opts\<lparr>FallbackPrompt := f\<rparr>))
           = GetPrompt env l now now' name (Some opts)"
    for f using assms
    by (simp add: GetPrompt_def Get_def buildPromptCacheKey_fallback fetchPrompt_fallback)
  have b: "fst (GetPrompt env l now now' name (Some (opts\<lparr>FallbackPrompt := Some F\<rparr>)))
              = (Value entry, None)"
    if "IsExpired entry now" and "fetch_fails env name opts"
  proof -
    from that(2) obtain e where "fetchPrompt env l now' name opts = ((None, Some e), l)"
      by (rule fetchPrompt_fails_cases)
    with assms that(1) have "GetPrompt env l now now' name (Some opts) = ((Value entry, None), l)"
      by (simp add: GetPrompt_def Get_def)
    with a show ?thesis by simp
  qed
  from a b show ?thesis by blast
qed

theorem C10_stale_beats_fallback_witness:
  "entries (promptCache seeded_client) (buildPromptCacheKey ''movie-critic'' no_opts)
     = Some seeded_entry \<and>
   \<not> ForceRefresh no_opts \<and>
   IsExpired seeded_entry 60 \<and>
   fetch_fails failing_env ''movie-critic'' no_opts \<and>
   fst (GetPrompt failing_env seeded_client 60 61 ''movie-critic''
          (Some (no_opts\<lparr>FallbackPrompt := Some (text_prompt 0 ''Please review {{movie}}'')\<rparr>)))
     = (Some (text_prompt 1 ''Old {{movie}}''), None) \<and>
   Some (text_prompt 1 ''Old {{movie}}'') \<noteq> Some (text_prompt 0 ''Please review {{movie}}'')"
proof -
  have h1: "entries (promptCache seeded_client) (buildPromptCacheKey ''movie-critic'' no_opts)
     = Some seeded_entry"
    by (simp add: production_key seeded_client_entry)
  have h2: "\<not> ForceRefresh no_opts"
    by (simp add: no_opts_def)
  have h3: "IsExpired seeded_entry 60"
    by (simp add: IsExpired_def After_def seeded_entry_def)
  have h4: "fetch_fails failing_env ''movie-critic'' no_opts"
    by (rule failing_env_fails)
  have d: "text_prompt 1 ''Old {{movie}}'' \<noteq> text_prompt 0 ''Please review {{movie}}''"
    by (simp add: text_prompt_def)
  from C10_stale_beats_fallback [OF h1 h2, where env = failing_env and now = 60 and now' = 61
      and f = None and F = "text_prompt 0 ''Please review {{movie}}''"] h3 h4
  have "fst (GetPrompt failing_env seeded_client 60 61 ''movie-critic''
          (Some (no_opts\<lparr>FallbackPrompt := Some (text_prompt 0 ''Please review {{movie}}'')\<rparr>)))
     = (Value seeded_entry, None)"
    by blast
  with h1 h2 h3 h4 d show ?thesis
    by (simp add: seeded_entry_def)
qed

end
